theory Spec2Isabelle
  imports Complex_Main
begin

section \<open>JavaScript values that reach the validators\<close>

text \<open>
  The validators are documented as taking a \<open>String\<close>; \<open>required\<close> also tests
  for \<open>null\<close> and \<open>undefined\<close>.  A field value is therefore a string, \<open>null\<close> or
  \<open>undefined\<close>.  A character stands for one code unit below 256, so the strings of
  the model are the Latin-1 strings.
\<close>

datatype jsval = Undefined | Null | Str string

text \<open>\<open>!value\<close> is true for \<open>undefined\<close>, \<open>null\<close> and the empty string.\<close>

fun falsy :: "jsval \<Rightarrow> bool" where
  "falsy Undefined = True"
| "falsy Null = True"
| "falsy (Str s) = (s = [])"

text \<open>
  \<open>a == b\<close>: \<open>null\<close> and \<open>undefined\<close> equal each other and nothing else; two
  strings are equal when they are the same sequence of code units.
\<close>

fun loose_eq :: "jsval \<Rightarrow> jsval \<Rightarrow> bool" where
  "loose_eq (Str a) (Str b) = (a = b)"
| "loose_eq (Str a) Undefined = False"
| "loose_eq (Str a) Null = False"
| "loose_eq Undefined (Str b) = False"
| "loose_eq Null (Str b) = False"
| "loose_eq Undefined Undefined = True"
| "loose_eq Undefined Null = True"
| "loose_eq Null Undefined = True"
| "loose_eq Null Null = True"

text \<open>\<open>ToString\<close>, applied by \<open>RegExp.prototype.test\<close> and by string concatenation.\<close>

fun to_string :: "jsval \<Rightarrow> string" where
  "to_string Undefined = ''undefined''"
| "to_string Null = ''null''"
| "to_string (Str s) = s"

subsection \<open>Character classes\<close>

definition code_unit :: "char \<Rightarrow> nat" where
  "code_unit c = of_char c"

definition in_range :: "char \<Rightarrow> char \<Rightarrow> char \<Rightarrow> bool" where
  "in_range lo hi c = (code_unit lo \<le> code_unit c \<and> code_unit c \<le> code_unit hi)"

definition is_digit :: "char \<Rightarrow> bool" where
  "is_digit c = in_range (CHR ''0'') (CHR ''9'') c"

text \<open>
  White space and line terminators below 256: TAB, LF, VT, FF, CR, SP and NBSP.  The
  same set is \<open>\s\<close> in a regular expression and what \<open>ToNumber\<close> strips.
\<close>

definition is_space :: "char \<Rightarrow> bool" where
  "is_space c = (code_unit c \<in> {9, 10, 11, 12, 13, 32, 160})"

text \<open>Line terminators, which the regular expression \<open>.\<close> does not match.\<close>

definition is_line_terminator :: "char \<Rightarrow> bool" where
  "is_line_terminator c = (code_unit c \<in> {10, 13})"

section \<open>Regular expressions\<close>

text \<open>
  The patterns of the source use literals, classes, \<open>.\<close>, grouping, alternation and
  the quantifiers \<open>*\<close>, \<open>+\<close>, \<open>?\<close>, \<open>{n}\<close>, \<open>{n,m}\<close> and \<open>{n,}\<close>; there are no
  back-references or look-arounds, so \<open>test\<close> decides membership in a regular language.
\<close>

datatype cls = Lit char | Range char char | Space | Digit

fun cls_has :: "cls \<Rightarrow> char \<Rightarrow> bool" where
  "cls_has (Lit a) c = (a = c)"
| "cls_has (Range lo hi) c = in_range lo hi c"
| "cls_has Space c = is_space c"
| "cls_has Digit c = is_digit c"

datatype rexp =
    Nothing
  | Eps
  | OneOf "cls list"
  | NoneOf "cls list"
  | Dot
  | Seq rexp rexp
  | Alt rexp rexp
  | Star rexp

fun nullable :: "rexp \<Rightarrow> bool" where
  "nullable Nothing = False"
| "nullable Eps = True"
| "nullable (OneOf cs) = False"
| "nullable (NoneOf cs) = False"
| "nullable Dot = False"
| "nullable (Seq r s) = (nullable r \<and> nullable s)"
| "nullable (Alt r s) = (nullable r \<or> nullable s)"
| "nullable (Star r) = True"

definition accept :: "bool \<Rightarrow> rexp" where
  "accept b = (if b then Eps else Nothing)"

fun deriv :: "char \<Rightarrow> rexp \<Rightarrow> rexp" where
  "deriv c Nothing = Nothing"
| "deriv c Eps = Nothing"
| "deriv c (OneOf cs) = accept (list_ex (\<lambda>k. cls_has k c) cs)"
| "deriv c (NoneOf cs) = accept (\<not> list_ex (\<lambda>k. cls_has k c) cs)"
| "deriv c Dot = accept (\<not> is_line_terminator c)"
| "deriv c (Seq r s) =
     (if nullable r then Alt (Seq (deriv c r) s) (deriv c s) else Seq (deriv c r) s)"
| "deriv c (Alt r s) = Alt (deriv c r) (deriv c s)"
| "deriv c (Star r) = Seq (deriv c r) (Star r)"

text \<open>\<open>/^r$/.test(s)\<close>: the whole of \<open>s\<close> matches \<open>r\<close> (no \<open>m\<close> flag in the source).\<close>

definition test_anchored :: "rexp \<Rightarrow> string \<Rightarrow> bool" where
  "test_anchored r s = nullable (foldl (\<lambda>q c. deriv c q) r s)"

text \<open>\<open>/r/.test(s)\<close>: some substring of \<open>s\<close> matches \<open>r\<close>.\<close>

fun match_prefix :: "rexp \<Rightarrow> string \<Rightarrow> bool" where
  "match_prefix r [] = nullable r"
| "match_prefix r (c # s) = (nullable r \<or> match_prefix (deriv c r) s)"

fun test_search :: "rexp \<Rightarrow> string \<Rightarrow> bool" where
  "test_search r [] = nullable r"
| "test_search r (c # s) = (match_prefix r (c # s) \<or> test_search r s)"

text \<open>Quantifiers.\<close>

definition Plus :: "rexp \<Rightarrow> rexp" where
  "Plus r = Seq r (Star r)"

definition Opt :: "rexp \<Rightarrow> rexp" where
  "Opt r = Alt r Eps"

fun Times :: "nat \<Rightarrow> rexp \<Rightarrow> rexp" where
  "Times 0 r = Eps"
| "Times (Suc n) r = Seq r (Times n r)"

definition Between :: "nat \<Rightarrow> nat \<Rightarrow> rexp \<Rightarrow> rexp" where
  "Between lo hi r = Seq (Times lo r) (Times (hi - lo) (Opt r))"

definition AtLeast :: "nat \<Rightarrow> rexp \<Rightarrow> rexp" where
  "AtLeast n r = Seq (Times n r) (Star r)"

definition Chr :: "char \<Rightarrow> rexp" where
  "Chr c = OneOf [Lit c]"

fun Word :: "string \<Rightarrow> rexp" where
  "Word [] = Eps"
| "Word (c # s) = Seq (Chr c) (Word s)"

fun Alts :: "rexp list \<Rightarrow> rexp" where
  "Alts [] = Nothing"
| "Alts [r] = r"
| "Alts (r # rs) = Alt r (Alts rs)"

fun Seqs :: "rexp list \<Rightarrow> rexp" where
  "Seqs [] = Eps"
| "Seqs [r] = r"
| "Seqs (r # rs) = Seq r (Seqs rs)"

section \<open>Numeric coercion\<close>

text \<open>
  \<open>+value\<close> is \<open>ToNumber\<close>.  \<open>positive\<close> looks at the result only through
  \<open>isNaN(v)\<close> and \<open>v < 0\<close>, so a Number is kept as \<open>NaN\<close>, an infinity, or the exact
  value of the literal.  Rounding to binary64 keeps the sign of every value it does not
  round to zero, and it rounds to (plus or minus) zero exactly the magnitudes up to
  \<open>2 ^ -1075\<close>, half of the least subnormal; \<open>-0 < 0\<close> is false.
\<close>

datatype jsnum = NaN | NegInf | PosInf | Fin rat

fun isNaN :: "jsnum \<Rightarrow> bool" where
  "isNaN NaN = True"
| "isNaN _ = False"

fun lt_zero :: "jsnum \<Rightarrow> bool" where
  "lt_zero NaN = False"
| "lt_zero NegInf = True"
| "lt_zero PosInf = False"
| "lt_zero (Fin q) = (q < 0)"

fun negate :: "jsnum \<Rightarrow> jsnum" where
  "negate NaN = NaN"
| "negate NegInf = PosInf"
| "negate PosInf = NegInf"
| "negate (Fin q) = Fin (- q)"

definition round_zero :: "rat \<Rightarrow> rat" where
  "round_zero q = (if \<bar>q\<bar> * 2 ^ 1075 \<le> 1 then 0 else q)"

definition pow10 :: "int \<Rightarrow> rat" where
  "pow10 e = (if 0 \<le> e then 10 ^ nat e else 1 / 10 ^ nat (- e))"

definition trim :: "string \<Rightarrow> string" where
  "trim s = rev (dropWhile is_space (rev (dropWhile is_space s)))"

definition digit_value :: "char \<Rightarrow> nat" where
  "digit_value c =
     (if is_digit c then code_unit c - 48
      else if in_range (CHR ''a'') (CHR ''f'') c then code_unit c - 87
      else code_unit c - 55)"

definition digits_value :: "nat \<Rightarrow> string \<Rightarrow> nat" where
  "digits_value base s = foldl (\<lambda>a c. a * base + digit_value c) 0 s"

definition is_hex_digit :: "char \<Rightarrow> bool" where
  "is_hex_digit c =
     (is_digit c \<or> in_range (CHR ''a'') (CHR ''f'') c \<or> in_range (CHR ''A'') (CHR ''F'') c)"

definition all_digits :: "string \<Rightarrow> bool" where
  "all_digits s = (s \<noteq> [] \<and> list_all is_digit s)"

text \<open>\<open>ExponentPart\<close>, optional: \<open>e\<close> or \<open>E\<close>, an optional sign, at least one digit.\<close>

definition exponent_part :: "string \<Rightarrow> int option" where
  "exponent_part s =
     (case s of
        [] \<Rightarrow> Some 0
      | c # t \<Rightarrow>
          if c = CHR ''e'' \<or> c = CHR ''E'' then
            (case t of
               [] \<Rightarrow> None
             | d # u \<Rightarrow>
                 if d = CHR ''+'' then
                   (if all_digits u then Some (int (digits_value 10 u)) else None)
                 else if d = CHR ''-'' then
                   (if all_digits u then Some (- int (digits_value 10 u)) else None)
                 else
                   (if all_digits t then Some (int (digits_value 10 t)) else None))
          else None)"

text \<open>
  \<open>StrUnsignedDecimalLiteral\<close>: \<open>Infinity\<close>, or digits with an optional fraction, or
  a fraction alone, each with an optional exponent.
\<close>

definition str_unsigned_decimal :: "string \<Rightarrow> jsnum" where
  "str_unsigned_decimal s =
     (if s = ''Infinity'' then PosInf
      else
        let ip = takeWhile is_digit s;
            r = dropWhile is_digit s;
            dot = (r \<noteq> [] \<and> hd r = CHR ''.'');
            fp = (if dot then takeWhile is_digit (tl r) else []);
            r' = (if dot then dropWhile is_digit (tl r) else r)
        in if ip = [] \<and> fp = [] then NaN
           else (case exponent_part r' of
                   None \<Rightarrow> NaN
                 | Some e \<Rightarrow>
                     Fin (round_zero (of_nat (digits_value 10 (ip @ fp))
                                        * pow10 (e - int (length fp))))))"

definition str_decimal :: "string \<Rightarrow> jsnum" where
  "str_decimal s =
     (case s of
        [] \<Rightarrow> NaN
      | c # t \<Rightarrow>
          if c = CHR ''+'' then str_unsigned_decimal t
          else if c = CHR ''-'' then negate (str_unsigned_decimal t)
          else str_unsigned_decimal s)"

text \<open>
  \<open>NonDecimalIntegerLiteral\<close>: \<open>0x\<close>, \<open>0o\<close> or \<open>0b\<close> (either case) and at least one
  digit of that base, without a sign.
\<close>

definition non_decimal :: "string \<Rightarrow> nat option" where
  "non_decimal s =
     (case s of
        z # x # ds \<Rightarrow>
          if z = CHR ''0'' \<and> ds \<noteq> [] then
            (if (x = CHR ''x'' \<or> x = CHR ''X'') \<and> list_all is_hex_digit ds
               then Some (digits_value 16 ds)
             else if (x = CHR ''o'' \<or> x = CHR ''O'') \<and> list_all (in_range (CHR ''0'') (CHR ''7'')) ds
               then Some (digits_value 8 ds)
             else if (x = CHR ''b'' \<or> x = CHR ''B'') \<and> list_all (in_range (CHR ''0'') (CHR ''1'')) ds
               then Some (digits_value 2 ds)
             else None)
          else None
      | _ \<Rightarrow> None)"

definition string_to_number :: "string \<Rightarrow> jsnum" where
  "string_to_number s =
     (let t = trim s
      in if t = [] then Fin 0
         else (case non_decimal t of
                 Some n \<Rightarrow> Fin (of_nat n)
               | None \<Rightarrow> str_decimal t))"

fun to_number :: "jsval \<Rightarrow> jsnum" where
  "to_number Undefined = NaN"
| "to_number Null = Fin 0"
| "to_number (Str s) = string_to_number s"

section \<open>The validator registry\<close>

text \<open>
  Each validator returns an object with the properties \<open>error\<close> and \<open>message\<close>;
  \<open>positive\<close> leaves \<open>message\<close> undefined when there is no error.
\<close>

record vresult =
  error :: bool
  message :: jsval

text \<open>The class \<open>[^<>()[\]\\.,;:\s@\"]\<close> of the e-mail pattern.\<close>

definition email_atom :: rexp where
  "email_atom =
     NoneOf [Lit (CHR ''<''), Lit (CHR ''>''), Lit (CHR ''(''), Lit (CHR '')''),
             Lit (CHR ''[''), Lit (CHR '']''), Lit (CHR 0x5C), Lit (CHR ''.''),
             Lit (CHR '',''), Lit (CHR '';''), Lit (CHR '':''), Space,
             Lit (CHR ''@''), Lit (CHR 0x22)]"

definition email_local :: rexp where
  "email_local =
     Alt (Seq (Plus email_atom) (Star (Seq (Chr (CHR ''.'')) (Plus email_atom))))
         (Seqs [Chr (CHR 0x22), Plus Dot, Chr (CHR 0x22)])"

definition email_octet :: rexp where
  "email_octet = Between 1 3 (OneOf [Range (CHR ''0'') (CHR ''9'')])"

definition email_domain :: rexp where
  "email_domain =
     Alt (Seqs [Chr (CHR ''[''), email_octet, Chr (CHR ''.''), email_octet, Chr (CHR ''.''),
                email_octet, Chr (CHR ''.''), email_octet, Chr (CHR '']'')])
         (Seq (Plus (Seq (Plus (OneOf [Range (CHR ''a'') (CHR ''z''), Range (CHR ''A'') (CHR ''Z''),
                                       Lit (CHR ''-''), Range (CHR ''0'') (CHR ''9'')]))
                         (Chr (CHR ''.''))))
              (AtLeast 2 (OneOf [Range (CHR ''a'') (CHR ''z''), Range (CHR ''A'') (CHR ''Z'')])))"

definition email_re :: rexp where
  "email_re = Seqs [email_local, Chr (CHR ''@''), email_domain]"

definition email :: "jsval \<Rightarrow> vresult" where
  "email v = \<lparr>error = \<not> test_anchored email_re (to_string v),
              message = Str ''Invalid email address''\<rparr>"

definition required :: "jsval \<Rightarrow> vresult" where
  "required v =
     (let r = (\<not> loose_eq v (Str []) \<and> v \<noteq> Undefined \<and> v \<noteq> Null)
      in \<lparr>error = \<not> r, message = Str ''Required''\<rparr>)"

definition string_v :: "jsval \<Rightarrow> vresult" where
  "string_v v =
     (if falsy v then \<lparr>error = True, message = Str ''Empty value''\<rparr>
      else \<lparr>error = test_search (OneOf [Digit]) (to_string v),
             message = Str ''Invalid value''\<rparr>)"

definition digit09 :: rexp where
  "digit09 = OneOf [Range (CHR ''0'') (CHR ''9'')]"

text \<open>
  \<open>4[0-9]{12}(?:[0-9]{3})?\<close>, \<open>5[1-5][0-9]{14}\<close>, \<open>6(?:011|5[0-9][0-9])[0-9]{12}\<close>,
  \<open>3[47][0-9]{13}\<close>, \<open>3(?:0[0-5]|[68][0-9])[0-9]{11}\<close> and
  \<open>(?:2131|1800|35\d{3})\d{11}\<close>.
\<close>

definition creditCard_re :: rexp where
  "creditCard_re =
     Alts [Seqs [Chr (CHR ''4''), Times 12 digit09, Opt (Times 3 digit09)],
           Seqs [Chr (CHR ''5''), OneOf [Range (CHR ''1'') (CHR ''5'')], Times 14 digit09],
           Seqs [Chr (CHR ''6''),
                 Alt (Word ''011'') (Seqs [Chr (CHR ''5''), digit09, digit09]),
                 Times 12 digit09],
           Seqs [Chr (CHR ''3''), OneOf [Lit (CHR ''4''), Lit (CHR ''7'')], Times 13 digit09],
           Seqs [Chr (CHR ''3''),
                 Alt (Seq (Chr (CHR ''0'')) (OneOf [Range (CHR ''0'') (CHR ''5'')]))
                     (Seq (OneOf [Lit (CHR ''6''), Lit (CHR ''8'')]) digit09),
                 Times 11 digit09],
           Seqs [Alts [Word ''2131'', Word ''1800'', Seq (Word ''35'') (Times 3 (OneOf [Digit]))],
                 Times 11 (OneOf [Digit])]]"

definition creditCard :: "jsval \<Rightarrow> vresult" where
  "creditCard v =
     (if falsy v then \<lparr>error = True, message = Str ''Empty value''\<rparr>
      else
        let result = test_anchored creditCard_re (to_string v);
            result = (if \<not> result then (if loose_eq v (Str ''4567456745674567'') then True else result)
                      else result)
        in \<lparr>error = \<not> result, message = Str ''Invalid credit card''\<rparr>)"

definition cvv :: "jsval \<Rightarrow> vresult" where
  "cvv v =
     (if falsy v then \<lparr>error = True, message = Str ''Empty value''\<rparr>
      else \<lparr>error = \<not> test_anchored (Between 3 4 (OneOf [Digit])) (to_string v),
             message = Str ''Invalid CVV''\<rparr>)"

definition positive :: "jsval \<Rightarrow> vresult" where
  "positive value =
     (let v = to_number value
      in if isNaN v \<or> lt_zero v
         then \<lparr>error = True, message = Str ''Invalid value''\<rparr>
         else \<lparr>error = False, message = Undefined\<rparr>)"

text \<open>The object literal \<open>service.validator\<close>: its own properties, in source order.\<close>

definition validator :: "string \<Rightarrow> (jsval \<Rightarrow> vresult) option" where
  "validator =
     map_of [(''email'', email), (''required'', required), (''string'', string_v),
             (''creditCard'', creditCard), (''cvv'', cvv), (''positive'', positive)]"

subsection \<open>Property lookup\<close>

text \<open>
  \<open>service.validator[key]\<close> is a property read on a plain object: when the object has
  no own property of that name the read continues on \<open>Object.prototype\<close>.  Its members
  (ECMAScript, with the additions required of web browsers) are functions, except
  \<open>__proto__\<close>, whose value is \<open>Object.prototype\<close> itself.  All of them are truthy.
  The model assumes that no script has added properties to \<open>Object.prototype\<close>.
\<close>

datatype builtin =
    Constructor | HasOwnProperty | IsPrototypeOf | PropertyIsEnumerable
  | ToLocaleString | ToString | ValueOf
  | DefineGetter | DefineSetter | LookupGetter | LookupSetter

definition object_prototype :: "string \<Rightarrow> builtin option" where
  "object_prototype =
     map_of [(''constructor'', Constructor), (''hasOwnProperty'', HasOwnProperty),
             (''isPrototypeOf'', IsPrototypeOf),
             (''propertyIsEnumerable'', PropertyIsEnumerable),
             (''toLocaleString'', ToLocaleString), (''toString'', ToString),
             (''valueOf'', ValueOf), (''__defineGetter__'', DefineGetter),
             (''__defineSetter__'', DefineSetter), (''__lookupGetter__'', LookupGetter),
             (''__lookupSetter__'', LookupSetter)]"

datatype property = Rule "jsval \<Rightarrow> vresult" | Inherited builtin | Prototype

definition lookup :: "string \<Rightarrow> property option" where
  "lookup k =
     (case validator k of
        Some g \<Rightarrow> Some (Rule g)
      | None \<Rightarrow>
          if k = ''__proto__'' then Some Prototype
          else map_option Inherited (object_prototype k))"

text \<open>
  The exceptions: a \<open>TypeError\<close> of the language, and the \<open>Error\<close> that jQuery raises
  for a selector it cannot read.
\<close>

datatype error = TypeError | SelectorError

text \<open>
  What a call returns, as far as \<open>result.error\<close> and \<open>result.message\<close> can tell: the
  object a validator built, \<open>undefined\<close>, or another value, on which reading \<open>error\<close>
  gives \<open>undefined\<close>.
\<close>

datatype retval = Result vresult | Undef | Other

text \<open>
  The inherited functions, called with \<open>this = service.validator\<close> and the field value
  as only argument.  \<open>__defineGetter__\<close> and \<open>__defineSetter__\<close> raise because their
  second argument is not callable.  \<open>__lookupGetter__\<close> and \<open>__lookupSetter__\<close>
  return \<open>undefined\<close> unless the value names an accessor property, and the only
  accessor on the chain is \<open>__proto__\<close>.  The others return a string, a boolean or an
  object without an \<open>error\<close> property.
\<close>

fun builtin_call :: "builtin \<Rightarrow> jsval \<Rightarrow> error + retval" where
  "builtin_call DefineGetter v = Inl TypeError"
| "builtin_call DefineSetter v = Inl TypeError"
| "builtin_call LookupGetter v = Inr (if to_string v = ''__proto__'' then Other else Undef)"
| "builtin_call LookupSetter v = Inr (if to_string v = ''__proto__'' then Other else Undef)"
| "builtin_call _ v = Inr Other"

fun callable :: "property \<Rightarrow> bool" where
  "callable Prototype = False"
| "callable _ = True"

text \<open>\<open>service.validator[key](value)\<close>.\<close>

fun invoke :: "property \<Rightarrow> jsval \<Rightarrow> error + retval" where
  "invoke (Rule g) v = Inr (Result (g v))"
| "invoke (Inherited b) v = builtin_call b v"
| "invoke Prototype v = Inl TypeError"

text \<open>\<open>result.error\<close>, as a condition; reading a property of \<open>undefined\<close> raises.\<close>

fun error_of :: "retval \<Rightarrow> error + bool" where
  "error_of (Result r) = Inr (error r)"
| "error_of Undef = Inl TypeError"
| "error_of Other = Inr False"

fun message_of :: "retval \<Rightarrow> jsval" where
  "message_of (Result r) = message r"
| "message_of _ = Undefined"

section \<open>The validation engine\<close>

text \<open>
  A field element, as the engine reads it through jQuery:
  \<open>val\<close> is \<open>el.val()\<close>; \<open>placeholder\<close> is \<open>el.attr("placeholder")\<close>, a string or
  \<open>undefined\<close>; \<open>data_validate\<close> is \<open>el.data("validate")\<close> when that is a string and
  \<open>None\<close> otherwise (no such data, or an attribute text that jQuery converts to a
  number, a boolean, \<open>null\<close> or an object).  The element stands in the document: it has
  a parent, before which a marker can be put.
\<close>

record field =
  ident :: nat
  val :: jsval
  placeholder :: jsval
  data_validate :: "string option"

text \<open>
  The page: the error markers present, each with the field it was put before and its
  text, in the order of their creation.  Position and style of a marker and its dismissal
  handlers are left out.  jQuery reads the message as markup when it builds the marker; the
  messages of the six validators are plain text, and the text of the marker is the message.  \<open>evaluated\<close> is a history, not part of the page: it records
  every call \<open>service.validator[key](value)\<close> made, with the field, the key and the
  value passed.
\<close>

record marker =
  target :: nat
  text_of :: string

record page =
  markers :: "marker list"
  evaluated :: "(nat \<times> string \<times> jsval) list"

text \<open>\<open>s.split(",")\<close>.\<close>

fun split_comma :: "string \<Rightarrow> string list" where
  "split_comma [] = [[]]"
| "split_comma (c # s) =
     (if c = CHR '','' then [] # split_comma s
      else (case split_comma s of
              [] \<Rightarrow> [[c]]
            | t # ts \<Rightarrow> (c # t) # ts))"

definition displayError :: "field \<Rightarrow> jsval \<Rightarrow> page \<Rightarrow> page" where
  "displayError fieldElement msg \<sigma> =
     \<sigma>\<lparr>markers := markers \<sigma> @ [\<lparr>target = ident fieldElement, text_of = to_string msg\<rparr>]\<rparr>"

definition record_call :: "field \<Rightarrow> string \<Rightarrow> jsval \<Rightarrow> page \<Rightarrow> page" where
  "record_call f k v \<sigma> = \<sigma>\<lparr>evaluated := evaluated \<sigma> @ [(ident f, k, v)]\<rparr>"

text \<open>
  The \<open>for\<close> loop of \<open>validateField\<close> from index \<open>i\<close> on, \<open>ks\<close> being the keys not yet
  visited.  The result is the value of \<open>passed\<close> at the \<open>return\<close>, or the exception.
\<close>

fun run_rules :: "field \<Rightarrow> jsval \<Rightarrow> string list \<Rightarrow> page \<Rightarrow> (error + bool) \<times> page" where
  "run_rules f v [] \<sigma> = (Inr True, \<sigma>)"
| "run_rules f v (k # ks) \<sigma> =
     (case lookup k of
        None \<Rightarrow> run_rules f v ks \<sigma>
      | Some p \<Rightarrow>
          if \<not> callable p then (Inl TypeError, \<sigma>)
          else
            let \<sigma>1 = record_call f k v \<sigma>
            in (case invoke p v of
                  Inl e \<Rightarrow> (Inl e, \<sigma>1)
                | Inr result \<Rightarrow>
                    (case error_of result of
                       Inl e \<Rightarrow> (Inl e, \<sigma>1)
                     | Inr True \<Rightarrow> (Inr False, displayError f (message_of result) \<sigma>1)
                     | Inr False \<Rightarrow> run_rules f v ks \<sigma>1)))"

text \<open>
  \<open>validations\<close> after the first \<open>if\<close>/\<open>else if\<close>: the split list, or \<open>None\<close> when the
  variable is still \<open>undefined\<close>.  The optional argument is a string or omitted.
\<close>

definition declared :: "field \<Rightarrow> string list option" where
  "declared f =
     (case data_validate f of
        None \<Rightarrow> None
      | Some d \<Rightarrow> if d \<noteq> [] then Some (split_comma d) else None)"

definition validations :: "field \<Rightarrow> string option \<Rightarrow> string list option" where
  "validations f opt_validations =
     (case opt_validations of
        None \<Rightarrow> declared f
      | Some s \<Rightarrow> if s \<noteq> [] then Some (split_comma s) else declared f)"

definition effective_value :: "field \<Rightarrow> jsval" where
  "effective_value f = (if loose_eq (val f) (placeholder f) then Str [] else val f)"

text \<open>Reading \<open>validations.length\<close> raises when \<open>validations\<close> is \<open>undefined\<close>.\<close>

definition validateField :: "field \<Rightarrow> string option \<Rightarrow> page \<Rightarrow> (error + bool) \<times> page" where
  "validateField fieldElement opt_validations \<sigma> =
     (case validations fieldElement opt_validations of
        None \<Rightarrow> (Inl TypeError, \<sigma>)
      | Some ks \<Rightarrow> run_rules fieldElement (effective_value fieldElement) ks \<sigma>)"

text \<open>The \<open>each\<close> loop of \<open>validate\<close>; an exception in the callback ends it.\<close>

fun each_field :: "field list \<Rightarrow> bool \<Rightarrow> page \<Rightarrow> (error + bool) \<times> page" where
  "each_field [] passed \<sigma> = (Inr passed, \<sigma>)"
| "each_field (f # fs) passed \<sigma> =
     (case validateField f None \<sigma> of
        (Inl e, \<sigma>') \<Rightarrow> (Inl e, \<sigma>')
      | (Inr ok, \<sigma>') \<Rightarrow> each_field fs (if \<not> ok then False else passed) \<sigma>')"

text \<open>
  jQuery is not part of the repository.  What \<open>$(sel)\<close> gives on the page is a parameter
  of \<open>validate\<close>: the field elements matched, in document order, or the exception jQuery
  raises for a selector it cannot read (an empty \<open>containerId\<close> makes the selector
  \<open>"#:visible [data-validate]:visible"\<close>).
\<close>

type_synonym jquery = "string \<Rightarrow> error + field list"

text \<open>The selector that \<open>validate\<close> builds; \<open>None\<close> is \<open>containerId === undefined\<close>.\<close>

definition selector :: "string option \<Rightarrow> string" where
  "selector containerId =
     (let sel = ''[data-validate]:visible''
      in case containerId of
           None \<Rightarrow> sel
         | Some c \<Rightarrow> ''#'' @ c @ '':visible '' @ sel)"

text \<open>
  \<open>validate\<close>: the old markers are removed first, if asked for; then the selector is
  resolved and the loop runs over what it matched.
\<close>

definition validate :: "jquery \<Rightarrow> string option \<Rightarrow> bool \<Rightarrow> page \<Rightarrow> (error + bool) \<times> page" where
  "validate jq containerId removeOldErrors \<sigma> =
     (let sel = selector containerId;
          \<sigma>1 = (if removeOldErrors then \<sigma>\<lparr>markers := []\<rparr> else \<sigma>)
      in case jq sel of
           Inl e \<Rightarrow> (Inl e, \<sigma>1)
         | Inr fs \<Rightarrow> each_field fs True \<sigma>1)"

section \<open>Notions used in the statements\<close>

text \<open>
  A key lets the loop go on to the next one when it names no property of the registry
  object, or when the property is called, returns, and the \<open>error\<close> read from the result
  is false.
\<close>

definition passes :: "jsval \<Rightarrow> string \<Rightarrow> bool" where
  "passes v k =
     (case lookup k of
        None \<Rightarrow> True
      | Some p \<Rightarrow>
          callable p \<and>
          (case invoke p v of
             Inl e \<Rightarrow> False
           | Inr result \<Rightarrow> error_of result = Inr False))"

text \<open>The calls recorded for keys that pass: one for each key that names a property.\<close>

definition calls :: "field \<Rightarrow> jsval \<Rightarrow> string list \<Rightarrow> (nat \<times> string \<times> jsval) list" where
  "calls f v ks = map (\<lambda>k. (ident f, k, v)) (filter (\<lambda>k. lookup k \<noteq> None) ks)"

definition add_calls :: "(nat \<times> string \<times> jsval) list \<Rightarrow> page \<Rightarrow> page" where
  "add_calls cs \<sigma> = \<sigma>\<lparr>evaluated := evaluated \<sigma> @ cs\<rparr>"

text \<open>A page without markers and an empty history.\<close>

definition fresh :: page where
  "fresh = \<lparr>markers = [], evaluated = []\<rparr>"

text \<open>
  What \<open>validateField(f)\<close> returns or raises; it is the same on every page
  (lemma \<open>fst_validateField_result\<close> below).
\<close>

definition field_result :: "field \<Rightarrow> error + bool" where
  "field_result f = fst (validateField f None fresh)"

text \<open>A field element, for the examples.\<close>

abbreviation sample :: "nat \<Rightarrow> jsval \<Rightarrow> jsval \<Rightarrow> string option \<Rightarrow> field" where
  "sample i v p d \<equiv>
     \<lparr>ident = i, val = v, placeholder = p, data_validate = d\<rparr>"

section \<open>Properties of the validators\<close>

lemma round_zero_keep: "1 \<le> \<bar>q\<bar> \<Longrightarrow> round_zero q = q"
proof -
  assume h: "1 \<le> \<bar>q\<bar>"
  have "(1::rat) < 2 ^ 1075" by (rule one_less_power) simp_all
  with h have "1 * 1 < \<bar>q\<bar> * 2 ^ 1075" by (intro mult_le_less_imp_less) simp_all
  then have "1 < \<bar>q\<bar> * 2 ^ 1075" by simp
  then show ?thesis by (simp add: round_zero_def)
qed

lemma round_zero_0: "round_zero 0 = 0"
  by (simp add: round_zero_def)

lemma match_prefix_Eps: "match_prefix Eps s"
  by (cases s) simp_all

lemma match_prefix_Nothing: "\<not> match_prefix Nothing s"
  by (induction s) simp_all

lemma test_search_digit: "test_search (OneOf [Digit]) s = list_ex is_digit s"
  by (induction s) (simp_all add: accept_def match_prefix_Eps match_prefix_Nothing)

text \<open>
  C7: \<open>required\<close> returns \<open>error = true\<close> exactly when the value is the empty string,
  \<open>null\<close> or \<open>undefined\<close>; it fails for \<open>""\<close>, \<open>null\<close> and \<open>undefined\<close> and passes for
  \<open>"0"\<close> and \<open>" "\<close>.
\<close>

theorem required_spec:
  "(error (required v) \<longleftrightarrow> v = Str '''' \<or> v = Null \<or> v = Undefined)
   \<and> error (required (Str '''')) \<and> error (required Null) \<and> error (required Undefined)
   \<and> \<not> error (required (Str ''0'')) \<and> \<not> error (required (Str '' ''))"
  by (cases v) (simp_all add: required_def)

lemma string_error: "error (string_v v) = (falsy v \<or> list_ex is_digit (to_string v))"
  by (simp add: string_v_def test_search_digit)

lemma string_message:
  "message (string_v v) = (if falsy v then Str ''Empty value'' else Str ''Invalid value'')"
  by (simp add: string_v_def)

text \<open>
  C9: \<open>string\<close> returns \<open>error = true\<close> exactly when the value is falsy, and then the
  message is "Empty value", or contains a decimal digit; it fails for \<open>"abc1"\<close> and
  \<open>""\<close> and passes for \<open>"abc"\<close>.
\<close>

theorem string_spec:
  "(error (string_v v) \<longleftrightarrow> falsy v \<or> list_ex is_digit (to_string v))
   \<and> message (string_v v) = (if falsy v then Str ''Empty value'' else Str ''Invalid value'')
   \<and> error (string_v (Str ''abc1''))
   \<and> error (string_v (Str ''''))
   \<and> \<not> error (string_v (Str ''abc''))"
  by (simp add: string_error string_message is_digit_def in_range_def code_unit_def)

text \<open>
  The literal that \<open>creditCard\<close> exempts is sixteen digits beginning with 4, so the
  pattern itself already accepts it, by its first alternative.
\<close>

lemma creditCard_bypass_matches: "test_anchored creditCard_re ''4567456745674567''"
  by code_simp

lemma creditCard_1234_no_match: "\<not> test_anchored creditCard_re ''1234''"
  by code_simp

text \<open>
  C3: \<open>creditCard\<close> returns \<open>error = false\<close> for \<open>"4567456745674567"\<close>, whatever the
  pattern says of it, and \<open>error = true\<close> for \<open>"1234"\<close>.
\<close>

theorem creditCard_spec:
  "\<not> error (creditCard (Str ''4567456745674567'')) \<and> error (creditCard (Str ''1234''))"
  by (simp add: creditCard_def Let_def creditCard_1234_no_match)

lemma to_number_examples:
  "to_number (Str ''-1'') = Fin (- 1)"
  "to_number (Str ''abc'') = NaN"
  "to_number (Str ''0'') = Fin 0"
  "to_number (Str ''3.5'') = Fin (7 / 2)"
  by (simp_all add: string_to_number_def trim_def is_space_def code_unit_def non_decimal_def
      str_decimal_def str_unsigned_decimal_def is_digit_def in_range_def exponent_part_def
      digits_value_def digit_value_def pow10_def round_zero_keep round_zero_0 Let_def
      is_hex_digit_def)

text \<open>
  C8: \<open>positive\<close> returns \<open>error = true\<close> exactly when the numeric coercion of the value
  is NaN or negative.  Zero is valid.  It fails for \<open>"-1"\<close> and \<open>"abc"\<close> and passes for
  \<open>"0"\<close> and \<open>"3.5"\<close>.
\<close>

theorem positive_spec:
  "(error (positive v) \<longleftrightarrow> isNaN (to_number v) \<or> lt_zero (to_number v))
   \<and> \<not> isNaN (Fin 0) \<and> \<not> lt_zero (Fin 0)
   \<and> to_number (Str ''-1'') = Fin (- 1) \<and> error (positive (Str ''-1''))
   \<and> to_number (Str ''abc'') = NaN \<and> error (positive (Str ''abc''))
   \<and> to_number (Str ''0'') = Fin 0 \<and> \<not> error (positive (Str ''0''))
   \<and> to_number (Str ''3.5'') = Fin (7 / 2) \<and> \<not> error (positive (Str ''3.5''))"
  by (simp add: positive_def Let_def to_number_examples del: to_number.simps)

section \<open>Properties of the engine\<close>

lemma validator_keys:
  "validator ''email'' = Some email"
  "validator ''required'' = Some required"
  "validator ''string'' = Some string_v"
  "validator ''creditCard'' = Some creditCard"
  "validator ''cvv'' = Some cvv"
  "validator ''positive'' = Some positive"
  "validator ''__proto__'' = None"
  "validator ''toString'' = None"
  by (simp_all add: validator_def)

lemma add_calls_Nil: "add_calls [] \<sigma> = \<sigma>"
  by (simp add: add_calls_def)

lemma add_calls_add_calls: "add_calls cs (add_calls bs \<sigma>) = add_calls (bs @ cs) \<sigma>"
  by (simp add: add_calls_def)

lemma record_call_add: "record_call f k v \<sigma> = add_calls [(ident f, k, v)] \<sigma>"
  by (simp add: record_call_def add_calls_def)

lemma calls_append: "calls f v (xs @ ys) = calls f v xs @ calls f v ys"
  by (simp add: calls_def)

subsection \<open>One step of the loop\<close>

lemma run_rules_pass:
  "passes v k \<Longrightarrow>
   run_rules f v (k # ks) \<sigma> = run_rules f v ks (add_calls (calls f v [k]) \<sigma>)"
  by (auto simp: passes_def calls_def add_calls_Nil record_call_add Let_def
      split: option.splits sum.splits bool.splits)

lemma run_rules_failing:
  "validator k = Some g \<Longrightarrow> error (g v) \<Longrightarrow>
   run_rules f v (k # ks) \<sigma> = (Inr False, displayError f (message (g v)) (record_call f k v \<sigma>))"
  by (simp add: lookup_def Let_def)

lemma run_rules_passing_prefix:
  "list_all (passes v) pre \<Longrightarrow>
   run_rules f v (pre @ ks) \<sigma> = run_rules f v ks (add_calls (calls f v pre) \<sigma>)"
proof (induction pre arbitrary: \<sigma>)
  case Nil
  show ?case by (simp add: calls_def add_calls_Nil)
next
  case (Cons k pre)
  have "calls f v (k # pre) = calls f v [k] @ calls f v pre"
    using calls_append [of f v "[k]" pre] by simp
  with Cons show ?case
    by (simp add: run_rules_pass add_calls_add_calls del: run_rules.simps)
qed

lemma run_rules_ident:
  "ident f = ident f' \<Longrightarrow> run_rules f v ks \<sigma> = run_rules f' v ks \<sigma>"
proof (induction ks arbitrary: \<sigma>)
  case Nil
  show ?case by simp
next
  case (Cons k ks)
  then show ?case
    by (simp add: Let_def record_call_def displayError_def
        split: option.splits sum.splits bool.splits)
qed

text \<open>The result of the loop does not depend on the page it starts from.\<close>

lemma fst_run_rules: "fst (run_rules f v ks \<sigma>) = fst (run_rules f v ks \<sigma>')"
proof (induction ks arbitrary: \<sigma> \<sigma>')
  case Nil
  show ?case by simp
next
  case (Cons k ks)
  show ?case
    by (auto simp: Let_def Cons.IH [of "record_call f k v \<sigma>" "record_call f k v \<sigma>'"]
          Cons.IH [of \<sigma> \<sigma>']
        split: option.splits sum.splits bool.splits)
qed

lemma fst_validateField: "fst (validateField f opt \<sigma>) = fst (validateField f opt \<sigma>')"
  by (simp add: validateField_def fst_run_rules [of f _ _ \<sigma> \<sigma>'] split: option.splits)

lemma fst_validateField_result: "fst (validateField f None \<sigma>) = field_result f"
  unfolding field_result_def by (rule fst_validateField)

text \<open>Every call recorded by the loop is for the field and the value it was given.\<close>

lemma run_rules_evaluated:
  "\<exists>ks'. evaluated (snd (run_rules f v ks \<sigma>)) = evaluated \<sigma> @ map (\<lambda>k. (ident f, k, v)) ks'"
proof (induction ks arbitrary: \<sigma>)
  case Nil
  show ?case by (rule exI [of _ "[]"]) simp
next
  case (Cons k ks)
  show ?case
  proof (cases "passes v k")
    case True
    from Cons [of "add_calls (calls f v [k]) \<sigma>"] obtain ks' where
      "evaluated (snd (run_rules f v ks (add_calls (calls f v [k]) \<sigma>)))
         = evaluated (add_calls (calls f v [k]) \<sigma>) @ map (\<lambda>k. (ident f, k, v)) ks'"
      by blast
    then have "evaluated (snd (run_rules f v (k # ks) \<sigma>))
         = evaluated \<sigma> @ map (\<lambda>k. (ident f, k, v)) (filter (\<lambda>k. lookup k \<noteq> None) [k] @ ks')"
      using True by (simp add: run_rules_pass add_calls_def calls_def del: run_rules.simps)
    then show ?thesis by blast
  next
    case False
    have "evaluated (snd (run_rules f v (k # ks) \<sigma>))
            = evaluated \<sigma> @ map (\<lambda>k. (ident f, k, v)) []
        \<or> evaluated (snd (run_rules f v (k # ks) \<sigma>))
            = evaluated \<sigma> @ map (\<lambda>k. (ident f, k, v)) [k]"
      using False
      by (auto simp: passes_def Let_def record_call_def displayError_def
          split: option.splits sum.splits bool.splits)
    then show ?thesis by blast
  qed
qed

subsection \<open>Rule order and the first failure\<close>

text \<open>When every key passes, all the properties named are called in order and the result is \<open>true\<close>.\<close>

lemma validateField_all_pass:
  "validations f opt = Some ks \<Longrightarrow> list_all (passes (effective_value f)) ks \<Longrightarrow>
   validateField f opt \<sigma> = (Inr True, add_calls (calls f (effective_value f) ks) \<sigma>)"
  using run_rules_passing_prefix [of "effective_value f" ks f "[]" \<sigma>]
  by (simp add: validateField_def)

text \<open>
  The rule list is \<open>pre @ k # post\<close>, and \<open>k\<close> is a validator whose result on the
  effective value has \<open>error = true\<close>.  Every key of \<open>pre\<close> passes: it is skipped, or
  it is called with the effective value, the call returns, and the \<open>error\<close> read from
  the result is false (so no call of \<open>pre\<close> raises, and no result of it is
  \<open>undefined\<close>).  Then the history gains the calls for \<open>pre\<close>, in order, and the call
  of \<open>k\<close>; the page gains one marker, with the message of \<open>k\<close>; \<open>false\<close> is
  returned; \<open>post\<close> plays no part.
\<close>

lemma validateField_first_failure:
  assumes "validations f opt = Some (pre @ k # post)"
    and "list_all (passes (effective_value f)) pre"
    and "validator k = Some g"
    and "error (g (effective_value f))"
  shows "validateField f opt \<sigma> =
           (Inr False,
            \<sigma>\<lparr>markers := markers \<sigma> @
                   [\<lparr>target = ident f, text_of = to_string (message (g (effective_value f)))\<rparr>],
              evaluated := evaluated \<sigma> @ calls f (effective_value f) pre @
                   [(ident f, k, effective_value f)]\<rparr>)"
  using assms
  by (simp add: validateField_def run_rules_passing_prefix run_rules_failing
      displayError_def record_call_def add_calls_def del: run_rules.simps)

lemma email_empty: "error (email (Str ''''))"
  by (simp add: email_def test_anchored_def email_re_def email_local_def email_domain_def
      email_atom_def email_octet_def Plus_def Between_def Chr_def)

text \<open>
  The rules \<open>"required,email"\<close> on the value \<open>""\<close>, which both rules reject: the
  message displayed is that of \<open>required\<close>, and \<open>email\<close> is not evaluated.
\<close>

lemma validateField_required_email:
  "validateField (sample 0 (Str '''') Undefined None) (Some ''required,email'') fresh
     = (Inr False,
        \<lparr>markers = [\<lparr>target = 0, text_of = ''Required''\<rparr>],
         evaluated = [(0, ''required'', Str '''')]\<rparr>)"
  using validateField_first_failure
    [of "sample 0 (Str '''') Undefined None" "Some ''required,email''" "[]" "''required''"
        "[''email'']" required fresh]
  by (simp add: validations_def effective_value_def validator_keys required_def fresh_def calls_def)

text \<open>
  A longer list, \<open>"toString,nosuchrule,positive,string,required"\<close> on the value
  \<open>"a1"\<close>: \<open>toString\<close> is inherited and harmless, \<open>nosuchrule\<close> is skipped,
  \<open>positive\<close> fails, and neither \<open>string\<close> nor \<open>required\<close> is evaluated.
\<close>

lemma validateField_order_example:
  "validateField (sample 0 (Str ''a1'') Undefined None)
       (Some ''toString,nosuchrule,positive,string,required'') fresh
     = (Inr False,
        \<lparr>markers = [\<lparr>target = 0, text_of = ''Invalid value''\<rparr>],
         evaluated = [(0, ''toString'', Str ''a1''), (0, ''positive'', Str ''a1'')]\<rparr>)"
proof -
  have n: "to_number (Str ''a1'') = NaN"
    by (simp add: string_to_number_def trim_def is_space_def code_unit_def non_decimal_def
        str_decimal_def str_unsigned_decimal_def is_digit_def in_range_def Let_def)
  have p: "positive (Str ''a1'') = \<lparr>error = True, message = Str ''Invalid value''\<rparr>"
    by (simp add: positive_def n del: to_number.simps)
  show ?thesis
    by (simp add: validateField_def validations_def effective_value_def lookup_def
        validator_def object_prototype_def p record_call_def displayError_def fresh_def)
qed

text \<open>
  C1: for every field and every rule list, \<open>validateField\<close> evaluates the rules in their
  declared order against the effective value and, at the first rule of the registry whose
  result has \<open>error = true\<close>, calls \<open>displayError\<close> with the message of that rule and
  returns \<open>false\<close>.  With the rules \<open>"__proto__,required"\<close> and the value \<open>""\<close> the
  first such rule is \<open>required\<close>, since \<open>__proto__\<close> is no key of the registry.  But
  \<open>service.validator["__proto__"]\<close> is the inherited \<open>Object.prototype\<close>, which is
  truthy and not a function: the call raises before \<open>required\<close> is reached, no marker is
  displayed and nothing is returned.  With \<open>"__lookupGetter__,required"\<close> the inherited
  function is called and returns \<open>undefined\<close>, and reading its \<open>error\<close> raises.
\<close>

theorem validateField_inherited_key_before_failure:
  "validations (sample 0 (Str '''') Undefined None) (Some ''__proto__,required'')
     = Some ([''__proto__''] @ ''required'' # [])
   \<and> validator ''__proto__'' = None
   \<and> validator ''required'' = Some required
   \<and> error (required (effective_value (sample 0 (Str '''') Undefined None)))
   \<and> validateField (sample 0 (Str '''') Undefined None) (Some ''__proto__,required'') fresh
     = (Inl TypeError, fresh)
   \<and> validator ''__lookupGetter__'' = None
   \<and> validateField (sample 0 (Str '''') Undefined None) (Some ''__lookupGetter__,required'') fresh
     = (Inl TypeError, \<lparr>markers = [], evaluated = [(0, ''__lookupGetter__'', Str '''')]\<rparr>)"
  by (simp add: validations_def effective_value_def validator_def required_def validateField_def
      lookup_def object_prototype_def record_call_def fresh_def)

subsection \<open>Keys that are not validators\<close>

text \<open>Keys that name no property of the registry object, own or inherited, are skipped.\<close>

lemma run_rules_unknown:
  "list_all (\<lambda>k. lookup k = None) ks \<Longrightarrow> run_rules f v ks \<sigma> = (Inr True, \<sigma>)"
  by (induction ks) simp_all

lemma validateField_unknown_keys:
  "validations f opt = Some ks \<Longrightarrow> list_all (\<lambda>k. lookup k = None) ks \<Longrightarrow>
   validateField f opt \<sigma> = (Inr True, \<sigma>)"
  by (simp add: validateField_def run_rules_unknown)

text \<open>
  C6: keys that are not in the validator registry are skipped, neither evaluated nor
  reported, and a rule list of such keys alone makes \<open>validateField\<close> return \<open>true\<close>.
  The guard \<open>if (service.validator[key])\<close> also lets through the names that the registry
  object inherits: with the rule list \<open>"__proto__"\<close> the call raises, and with
  \<open>"toString"\<close> the inherited function is called with the field value.
\<close>

theorem validateField_inherited_key:
  "validator ''__proto__'' = None
   \<and> validateField (sample 0 (Str ''x'') Undefined None) (Some ''__proto__'') fresh
       = (Inl TypeError, fresh)
   \<and> validator ''toString'' = None
   \<and> validateField (sample 0 (Str ''x'') Undefined None) (Some ''toString'') fresh
       = (Inr True, \<lparr>markers = [], evaluated = [(0, ''toString'', Str ''x'')]\<rparr>)"
  by (simp add: validateField_def validations_def validator_keys lookup_def object_prototype_def
      effective_value_def record_call_def fresh_def)

subsection \<open>Fields without a rule list\<close>

lemma validateField_undeclared:
  "validations f opt = None \<Longrightarrow> validateField f opt \<sigma> = (Inl TypeError, \<sigma>)"
  by (simp add: validateField_def)

lemma validations_omitted:
  "validations f None = None \<longleftrightarrow> data_validate f = None \<or> data_validate f = Some ''''"
  by (simp add: validations_def declared_def split: option.splits)

text \<open>
  C2: with the explicit rules omitted, a field whose rule declaration is missing or
  empty has no rule evaluated and passes, \<open>validateField\<close> returning \<open>true\<close>.  In the
  code \<open>validations\<close> stays \<open>undefined\<close> for such a field and reading
  \<open>validations.length\<close> raises.
\<close>

theorem validateField_no_declaration:
  "validateField (sample 0 (Str ''x'') Undefined None) None fresh = (Inl TypeError, fresh)
   \<and> validateField (sample 0 (Str ''x'') Undefined (Some '''')) None fresh
       = (Inl TypeError, fresh)"
  by (simp add: validateField_def validations_def declared_def)

subsection \<open>Placeholder text\<close>

text \<open>For two strings \<open>==\<close> is equality of the strings.\<close>

lemma loose_eq_strings: "loose_eq (Str a) (Str b) \<longleftrightarrow> a = b"
  by simp

text \<open>
  C4: when the value of the field equals its placeholder text, every rule evaluated in
  the call is given the empty string: the calls the history gains all carry \<open>""\<close>, and
  the call does what it does on the same field with the value \<open>""\<close>.
\<close>

theorem validateField_placeholder:
  assumes "loose_eq (val f) (placeholder f)"
  shows "effective_value f = Str ''''
    \<and> validateField f opt \<sigma> = validateField (f\<lparr>val := Str ''''\<rparr>) opt \<sigma>
    \<and> (\<exists>ks. evaluated (snd (validateField f opt \<sigma>))
               = evaluated \<sigma> @ map (\<lambda>k. (ident f, k, Str '''')) ks)"
proof -
  from assms have e: "effective_value f = Str ''''"
    by (simp add: effective_value_def)
  have h: "\<exists>ks. evaluated (snd (validateField f opt \<sigma>))
               = evaluated \<sigma> @ map (\<lambda>k. (ident f, k, Str '''')) ks"
  proof (cases "validations f opt")
    case None
    then show ?thesis by (intro exI [of _ "[]"]) (simp add: validateField_def)
  next
    case (Some ks)
    with e run_rules_evaluated [of f "Str ''''" ks \<sigma>] show ?thesis
      by (simp add: validateField_def)
  qed
  have g: "validateField f opt \<sigma> = validateField (f\<lparr>val := Str ''''\<rparr>) opt \<sigma>"
    using assms run_rules_ident [of f "f\<lparr>val := Str []\<rparr>"]
    by (simp add: validateField_def effective_value_def validations_def declared_def
        split: option.splits)
  from e g h show ?thesis by blast
qed

theorem validateField_placeholder_witness:
  "loose_eq (val (sample 0 (Str ''Name'') (Str ''Name'') (Some ''required,email'')))
            (placeholder (sample 0 (Str ''Name'') (Str ''Name'') (Some ''required,email'')))
   \<and> effective_value (sample 0 (Str ''Name'') (Str ''Name'') (Some ''required,email'')) = Str ''''
   \<and> validateField (sample 0 (Str ''Name'') (Str ''Name'') (Some ''required,email'')) None fresh
       = validateField (sample 0 (Str '''') (Str ''Name'') (Some ''required,email'')) None fresh
   \<and> (\<exists>ks. evaluated (snd (validateField
                (sample 0 (Str ''Name'') (Str ''Name'') (Some ''required,email'')) None fresh))
        = evaluated fresh @ map (\<lambda>k. (0, k, Str '''')) ks)"
  using validateField_placeholder
    [of "sample 0 (Str ''Name'') (Str ''Name'') (Some ''required,email'')" None fresh]
  by auto

text \<open>On that field the rule \<open>required\<close> fails, although the field holds text.\<close>

lemma validateField_placeholder_required:
  "validateField (sample 0 (Str ''Name'') (Str ''Name'') (Some ''required,email'')) None fresh
     = (Inr False,
        \<lparr>markers = [\<lparr>target = 0, text_of = ''Required''\<rparr>],
         evaluated = [(0, ''required'', Str '''')]\<rparr>)"
  by (simp add: validateField_def validations_def declared_def effective_value_def lookup_def
      validator_keys required_def record_call_def displayError_def fresh_def)

subsection \<open>Blank values and \<open>positive\<close>\<close>

lemma trim_blank: "list_all is_space s \<Longrightarrow> trim s = []"
  by (auto simp: trim_def list_all_iff dest: set_dropWhileD)

lemma positive_blank:
  "list_all is_space s \<Longrightarrow> positive (Str s) = \<lparr>error = False, message = Undefined\<rparr>"
  by (simp add: positive_def string_to_number_def trim_blank)

text \<open>
  C10: \<open>positive\<close> accepts the empty string and every string of white space, whose
  numeric coercion is 0; so when the value of a field equals its placeholder text the rule
  \<open>positive\<close> passes for that field.
\<close>

theorem positive_accepts_blank:
  "(list_all is_space s \<longrightarrow> to_number (Str s) = Fin 0 \<and> \<not> error (positive (Str s)))
   \<and> (loose_eq (val f) (placeholder f) \<longrightarrow>
        \<not> error (positive (effective_value f))
        \<and> validateField f (Some ''positive'') \<sigma>
            = (Inr True, \<sigma>\<lparr>evaluated := evaluated \<sigma> @ [(ident f, ''positive'', Str '''')]\<rparr>))"
proof -
  have a: "list_all is_space s \<longrightarrow> to_number (Str s) = Fin 0 \<and> \<not> error (positive (Str s))"
    by (simp add: positive_blank string_to_number_def trim_blank)
  have p: "positive (Str '''') = \<lparr>error = False, message = Undefined\<rparr>"
    using positive_blank [of "''''"] by simp
  have b: "loose_eq (val f) (placeholder f) \<longrightarrow>
        \<not> error (positive (effective_value f))
        \<and> validateField f (Some ''positive'') \<sigma>
            = (Inr True, \<sigma>\<lparr>evaluated := evaluated \<sigma> @ [(ident f, ''positive'', Str '''')]\<rparr>)"
    by (simp add: validateField_def validations_def effective_value_def lookup_def validator_keys
        p record_call_def)
  from a b show ?thesis by simp
qed

theorem positive_accepts_blank_witness:
  "list_all is_space '' ''
   \<and> to_number (Str '' '') = Fin 0 \<and> \<not> error (positive (Str '' ''))
   \<and> loose_eq (val (sample 0 (Str ''Amount'') (Str ''Amount'') None))
               (placeholder (sample 0 (Str ''Amount'') (Str ''Amount'') None))
   \<and> \<not> error (positive (effective_value (sample 0 (Str ''Amount'') (Str ''Amount'') None)))
   \<and> validateField (sample 0 (Str ''Amount'') (Str ''Amount'') None) (Some ''positive'') fresh
       = (Inr True, \<lparr>markers = [], evaluated = [(0, ''positive'', Str '''')]\<rparr>)"
  using positive_accepts_blank [of "'' ''" "sample 0 (Str ''Amount'') (Str ''Amount'') None" fresh]
  by (simp add: is_space_def code_unit_def fresh_def)

subsection \<open>The field loop of \<open>validate\<close>\<close>

lemma each_field_all:
  "list_all (\<lambda>f. \<not> isl (field_result f)) fs \<Longrightarrow>
   each_field fs passed \<sigma> =
     (Inr (passed \<and> list_all (\<lambda>f. field_result f = Inr True) fs),
      foldl (\<lambda>\<sigma> f. snd (validateField f None \<sigma>)) \<sigma> fs)"
proof (induction fs arbitrary: passed \<sigma>)
  case Nil
  show ?case by simp
next
  case (Cons f fs)
  obtain r \<sigma>' where v: "validateField f None \<sigma> = (r, \<sigma>')"
    by (cases "validateField f None \<sigma>")
  then have r: "r = field_result f"
    using fst_validateField_result [of f \<sigma>] by simp
  from Cons.prems have ok: "\<not> isl (field_result f)"
    and rest: "list_all (\<lambda>f. \<not> isl (field_result f)) fs"
    by simp_all
  from ok r have "\<not> isl r" by simp
  then obtain b where b: "r = Inr b"
    by (cases r) simp_all
  show ?case using v b r Cons.IH [OF rest] by (cases b) auto
qed

lemma each_field_fails:
  "list_all (\<lambda>f. \<not> isl (field_result f)) fs \<Longrightarrow>
   list_all (\<lambda>f. field_result f = Inr True) fs
     = (\<not> list_ex (\<lambda>f. field_result f = Inr False) fs)"
proof (induction fs)
  case Nil
  show ?case by simp
next
  case (Cons f fs)
  then have ok: "\<not> isl (field_result f)" by simp
  have "(field_result f = Inr True) = (field_result f \<noteq> Inr False)"
    using ok by (cases "field_result f") auto
  with Cons show ?case by simp
qed

text \<open>
  \<open>validateField\<close> raises on no field that declares a rule list, not empty, of names
  that are validators or name no property at all.
\<close>

lemma run_rules_returns:
  "list_all (\<lambda>k. lookup k = None \<or> validator k \<noteq> None) ks \<Longrightarrow>
   \<not> isl (fst (run_rules f v ks \<sigma>))"
proof (induction ks arbitrary: \<sigma>)
  case Nil
  show ?case by simp
next
  case (Cons k ks)
  then show ?case
    by (auto simp: lookup_def Let_def split: option.splits bool.splits)
qed

lemma field_result_declared:
  "data_validate f = Some d \<Longrightarrow> d \<noteq> [] \<Longrightarrow>
   list_all (\<lambda>k. lookup k = None \<or> validator k \<noteq> None) (split_comma d) \<Longrightarrow>
   \<not> isl (field_result f)"
  by (simp add: field_result_def validateField_def validations_def declared_def run_rules_returns)

text \<open>
  When the selector is resolved to the fields \<open>fs\<close> and \<open>validateField\<close> raises on none
  of them, \<open>validate\<close> calls it on every field in turn, whatever the earlier calls
  returned, and returns the conjunction of the results: \<open>false\<close> exactly when some field
  fails.  The page it leaves is the one obtained by calling \<open>validateField\<close> on each field
  in turn, after the old markers are removed if that was asked for.
\<close>

lemma validate_all_fields:
  assumes "jq (selector containerId) = Inr fs"
    and "list_all (\<lambda>f. \<not> isl (field_result f)) fs"
  shows "validate jq containerId removeOldErrors \<sigma> =
           (Inr (list_all (\<lambda>f. field_result f = Inr True) fs),
            foldl (\<lambda>\<sigma> f. snd (validateField f None \<sigma>))
              (if removeOldErrors then \<sigma>\<lparr>markers := []\<rparr> else \<sigma>) fs)
       \<and> (fst (validate jq containerId removeOldErrors \<sigma>) = Inr False
            \<longleftrightarrow> list_ex (\<lambda>f. field_result f = Inr False) fs)"
  using assms by (simp add: validate_def Let_def each_field_all each_field_fails)

text \<open>
  Two fields, the first failing \<open>required\<close>, and an old marker on the page:
  \<open>validate(undefined, true)\<close> removes the old marker, validates both fields, leaves one
  marker, on the first field, and returns \<open>false\<close>.
\<close>

lemma validate_two_fields:
  "validate (\<lambda>sel. Inr [sample 1 (Str '''') Undefined (Some ''required''),
                         sample 2 (Str ''x'') Undefined (Some ''required'')])
        None True \<lparr>markers = [\<lparr>target = 2, text_of = ''Required''\<rparr>], evaluated = []\<rparr>
      = (Inr False,
         \<lparr>markers = [\<lparr>target = 1, text_of = ''Required''\<rparr>],
          evaluated = [(1, ''required'', Str ''''), (2, ''required'', Str ''x'')]\<rparr>)"
  by (simp add: validate_def Let_def validateField_def validations_def declared_def
      effective_value_def lookup_def validator_keys required_def record_call_def displayError_def)

text \<open>
  Both fields failing: the first failure does not end the loop, and each field gets its
  marker.
\<close>

lemma validate_two_failing_fields:
  "validate (\<lambda>sel. Inr [sample 1 (Str '''') Undefined (Some ''required''),
                         sample 2 (Str ''a1'') Undefined (Some ''string'')])
        None False fresh
      = (Inr False,
         \<lparr>markers = [\<lparr>target = 1, text_of = ''Required''\<rparr>,
                     \<lparr>target = 2, text_of = ''Invalid value''\<rparr>],
          evaluated = [(1, ''required'', Str ''''), (2, ''string'', Str ''a1'')]\<rparr>)"
  by (simp add: validate_def Let_def validateField_def validations_def declared_def
      effective_value_def lookup_def validator_keys required_def string_v_def accept_def
      is_digit_def in_range_def code_unit_def record_call_def displayError_def fresh_def)

text \<open>An exception from jQuery leaves \<open>validate\<close> after the old markers are removed.\<close>

lemma validate_selector_raises:
  "jq (selector containerId) = Inl e \<Longrightarrow>
   validate jq containerId removeOldErrors \<sigma>
     = (Inl e, if removeOldErrors then \<sigma>\<lparr>markers := []\<rparr> else \<sigma>)"
  by (simp add: validate_def Let_def)

lemma selector_examples:
  "selector None = ''[data-validate]:visible''"
  "selector (Some ''form1'') = ''#form1:visible [data-validate]:visible''"
  "selector (Some '''') = ''#:visible [data-validate]:visible''"
  by (simp_all add: selector_def)

text \<open>
  C5: for every resolved field set \<open>validate\<close> calls \<open>validateField\<close> on every field of
  the set and returns the conjunction of the results, a failing field not stopping the
  evaluation of the remaining ones.  The selector \<open>[data-validate]:visible\<close> matches a
  visible field with \<open>data-validate=""\<close>.  On the page where it matches that field and,
  after it, a field that fails \<open>required\<close>, \<open>validateField\<close> raises on the first field,
  which ends the loop: the second field is not validated and gets no marker, and
  \<open>validate\<close> returns nothing, where the conjunction of the results would be \<open>false\<close>
  with a marker on the second field.
\<close>

theorem validate_stops_at_undeclared_field:
  "validate (\<lambda>sel. Inr [sample 1 (Str ''x'') Undefined (Some ''''),
                         sample 2 (Str '''') Undefined (Some ''required'')])
        None False fresh
      = (Inl TypeError, fresh)
   \<and> validateField (sample 2 (Str '''') Undefined (Some ''required'')) None fresh
      = (Inr False,
         \<lparr>markers = [\<lparr>target = 2, text_of = ''Required''\<rparr>],
          evaluated = [(2, ''required'', Str '''')]\<rparr>)"
  by (simp add: validate_def Let_def validateField_def validations_def declared_def
      effective_value_def lookup_def validator_keys required_def record_call_def displayError_def
      fresh_def)

end
